theory Spec2Isabelle
  imports Main
begin

section \<open>Data model (cache.ts, lines 4-16)\<close>

text \<open>
  The four resource schemas come from the generated \<^verbatim>\<open>types.ts\<close>. The cache and the
  transaction formatter read only the identifier, the name and (for accounts) the
  display name of a resource, so these are the fields the records carry. Identifiers are
  the integers the remote system assigns; a JavaScript template literal prints such a
  number in plain decimal notation.
\<close>

record category =
  cat_id :: int
  cat_name :: string

record tag =
  tag_id :: int
  tag_name :: string

record manual_account =
  ma_id :: int
  ma_name :: string
  ma_display_name :: "string option"

record plaid_account =
  pa_id :: int
  pa_name :: string
  pa_display_name :: "string option"

text \<open>\<^verbatim>\<open>interface Cache\<close>: four tables, each a \<^verbatim>\<open>Map<number, _>\<close>.\<close>

record cache =
  categories :: "int \<rightharpoonup> category"
  tags :: "int \<rightharpoonup> tag"
  manualAccounts :: "int \<rightharpoonup> manual_account"
  plaidAccounts :: "int \<rightharpoonup> plaid_account"

text \<open>
  The module variable \<^verbatim>\<open>let cache: Cache | null = null\<close> is a \<open>cache option\<close> that every
  function takes and the mutating ones return. The argument of \<^verbatim>\<open>refreshCache\<close> is one of
  four string literals.
\<close>

datatype resource_type = Categories | Tags | ManualAccounts | PlaidAccounts

text \<open>
  Thrown values: a plain \<^verbatim>\<open>Error\<close> with its message, or the client's \<^verbatim>\<open>ApiError\<close> with
  the HTTP status and its message.
\<close>

datatype error = Error string | ApiError int string

section \<open>Strings\<close>

text \<open>Decimal notation of an integer, as \<^verbatim>\<open>`${id}`\<close> prints it.\<close>

definition digit :: "nat \<Rightarrow> char" where
  "digit d = ''0123456789'' ! (d mod 10)"

function string_of_nat :: "nat \<Rightarrow> string" where
  "string_of_nat n =
     (if n < 10 then [digit n] else string_of_nat (n div 10) @ [digit (n mod 10)])"
  by pat_completeness auto
termination
  by (relation "measure id") auto

declare string_of_nat.simps [simp del]

definition number_to_string :: "int \<Rightarrow> string" where
  "number_to_string i =
     (if i < 0 then ''-'' @ string_of_nat (nat (- i)) else string_of_nat (nat i))"

text \<open>\<^verbatim>\<open>Array.prototype.join\<close> on an array of strings.\<close>

fun join :: "string \<Rightarrow> string list \<Rightarrow> string" where
  "join sep [] = []"
| "join sep [x] = x"
| "join sep (x # y # ys) = x @ sep @ join sep (y # ys)"

section \<open>The API client (client.ts)\<close>

text \<open>
  What \<^verbatim>\<open>await api.GET(path)\<close> can yield, as \<^verbatim>\<open>{ data, error, response }\<close>:
  \<^item> the call itself rejects (a transport failure);
  \<^item> the server answers with a status outside 2xx: \<^verbatim>\<open>data\<close> is undefined,
    \<^verbatim>\<open>response.status\<close> is the status and \<^verbatim>\<open>error\<close> is the body of the answer, parsed as
    JSON where that is possible and the raw text otherwise. An empty body is the empty
    string, and the bodies \<^verbatim>\<open>0\<close>, \<^verbatim>\<open>false\<close> and \<^verbatim>\<open>null\<close> parse to these values;
  \<^item> the server answers with data, \<^verbatim>\<open>error\<close> is undefined, and the list of records in the
    data may be missing (\<^verbatim>\<open>data?.categories ?? []\<close>).

  An error body that is a JSON object is read through its optional fields \<^verbatim>\<open>message\<close> and
  \<^verbatim>\<open>errors\<close> (the \<^verbatim>\<open>errMsg\<close> of each entry); every other value has neither field.
\<close>

record error_body =
  message :: "string option"
  errors :: "string list option"

datatype js_value =
    JNull
  | JBool bool
  | JNumber int
  | JString string
  | JObject error_body

text \<open>The truthiness that \<^verbatim>\<open>if (error)\<close> tests.\<close>

fun truthy :: "js_value \<Rightarrow> bool" where
  "truthy JNull = False"
| "truthy (JBool b) = b"
| "truthy (JNumber n) = (n \<noteq> 0)"
| "truthy (JString s) = (s \<noteq> [])"
| "truthy (JObject b) = True"

datatype 'a api_result =
    Rejected string
  | ErrorResponse int js_value
  | Data "'a list option"

text \<open>
  The client as the cache sees it: what each of the four endpoints answers at this
  moment, the order in which concurrently issued requests settle, and the log of the
  requests issued so far.
\<close>

record api =
  categories_response :: "category api_result"
  tags_response :: "tag api_result"
  manual_accounts_response :: "manual_account api_result"
  plaid_accounts_response :: "plaid_account api_result"
  arrival :: "resource_type \<Rightarrow> nat"
  requests :: "string list"

definition GET :: "string \<Rightarrow> api \<Rightarrow> api" where
  "GET path a = a\<lparr>requests := requests a @ [path]\<rparr>"

text \<open>
  \<^verbatim>\<open>handleError(status, body): never\<close>: the error it throws. \<^verbatim>\<open>detail\<close> is
  \<^verbatim>\<open>parsed?.errors?.map((e) => e.errMsg).join("; ") ?? parsed?.message\<close>.
\<close>

definition detail :: "js_value \<Rightarrow> string option" where
  "detail parsed =
     (case parsed of
        JObject b \<Rightarrow>
          (case errors b of
             Some es \<Rightarrow> Some (join ''; '' es)
           | None \<Rightarrow> message b)
      | _ \<Rightarrow> None)"

definition handleError :: "int \<Rightarrow> js_value \<Rightarrow> error" where
  "handleError status body =
     (if status = 401 then ApiError 401 ''API token invalid or expired. Check LUNCHMONEY_TOKEN.''
      else if status = 429 then ApiError 429 ''Rate limit reached. Try again in a moment.''
      else if status = 404 then
        ApiError 404 (case detail body of Some d \<Rightarrow> d | None \<Rightarrow> ''Resource not found.'')
      else if status \<ge> 500 then ApiError status ''Lunch Money API error. Try again later.''
      else ApiError status
        (case detail body of
           Some d \<Rightarrow> d
         | None \<Rightarrow> ''Request failed ('' @ number_to_string status @ '').''))"

section \<open>Fetchers (cache.ts, lines 85-127)\<close>

text \<open>
  The loop \<^verbatim>\<open>for (const x of xs) map.set(x.id, x)\<close> on a fresh map: a later record
  with the same id replaces an earlier one.
\<close>

definition collect :: "('a \<Rightarrow> int) \<Rightarrow> 'a list \<Rightarrow> (int \<rightharpoonup> 'a)" where
  "collect key xs = fold (\<lambda>x m. m(key x \<mapsto> x)) xs Map.empty"

text \<open>
  The body shared by the four fetchers. A rejected call propagates.
  \<^verbatim>\<open>if (error) handleError(response.status, error)\<close> throws only when the error value is
  truthy; otherwise the fetcher goes on to the loop, and with \<^verbatim>\<open>data\<close> undefined the loop
  runs over the empty list.
\<close>

definition snapshot :: "('a \<Rightarrow> int) \<Rightarrow> 'a api_result \<Rightarrow> error + (int \<rightharpoonup> 'a)" where
  "snapshot key r =
     (case r of
        Rejected msg \<Rightarrow> Inl (Error msg)
      | ErrorResponse status body \<Rightarrow>
          (if truthy body then Inl (handleError status body)
           else Inr (collect key []))
      | Data d \<Rightarrow> Inr (collect key (case d of Some xs \<Rightarrow> xs | None \<Rightarrow> [])))"

definition fetchCategories :: "api \<Rightarrow> (error + (int \<rightharpoonup> category)) \<times> api" where
  "fetchCategories a = (snapshot cat_id (categories_response a), GET ''/categories'' a)"

definition fetchTags :: "api \<Rightarrow> (error + (int \<rightharpoonup> tag)) \<times> api" where
  "fetchTags a = (snapshot tag_id (tags_response a), GET ''/tags'' a)"

definition fetchManualAccounts :: "api \<Rightarrow> (error + (int \<rightharpoonup> manual_account)) \<times> api" where
  "fetchManualAccounts a =
     (snapshot ma_id (manual_accounts_response a), GET ''/manual_accounts'' a)"

definition fetchPlaidAccounts :: "api \<Rightarrow> (error + (int \<rightharpoonup> plaid_account)) \<times> api" where
  "fetchPlaidAccounts a =
     (snapshot pa_id (plaid_accounts_response a), GET ''/plaid_accounts'' a)"

section \<open>The cache (cache.ts, lines 18-81)\<close>

text \<open>
  \<^verbatim>\<open>Promise.all\<close> of the four fetches: it fulfils with the four values when every
  promise fulfils, and otherwise rejects with the reason of the promise that rejects
  first, that is the rejected one that settles earliest.
\<close>

definition rejection :: "resource_type \<Rightarrow> error + 'a \<Rightarrow> (resource_type \<times> error) list" where
  "rejection r x = (case x of Inl e \<Rightarrow> [(r, e)] | Inr _ \<Rightarrow> [])"

fun earliest ::
  "(resource_type \<Rightarrow> nat) \<Rightarrow> resource_type \<times> error \<Rightarrow> (resource_type \<times> error) list \<Rightarrow> error"
where
  "earliest arr (r, e) [] = e"
| "earliest arr (r, e) ((r', e') # xs) =
     (if arr r' < arr r then earliest arr (r', e') xs else earliest arr (r, e) xs)"

definition promise_all ::
  "(resource_type \<Rightarrow> nat) \<Rightarrow> error + 'a \<Rightarrow> error + 'b \<Rightarrow> error + 'c \<Rightarrow> error + 'd
     \<Rightarrow> error + ('a \<times> 'b \<times> 'c \<times> 'd)"
where
  "promise_all arr c t m p =
     (case rejection Categories c @ rejection Tags t
             @ rejection ManualAccounts m @ rejection PlaidAccounts p of
        x # xs \<Rightarrow> Inl (earliest arr x xs)
      | [] \<Rightarrow>
          (case c of Inl e \<Rightarrow> Inl e | Inr cv \<Rightarrow>
          (case t of Inl e \<Rightarrow> Inl e | Inr tv \<Rightarrow>
          (case m of Inl e \<Rightarrow> Inl e | Inr mv \<Rightarrow>
          (case p of Inl e \<Rightarrow> Inl e | Inr pv \<Rightarrow> Inr (cv, tv, mv, pv))))))"

text \<open>
  \<^verbatim>\<open>initCache\<close>: the four fetch calls are evaluated, in array order, before
  \<^verbatim>\<open>Promise.all\<close> awaits them, so all four requests are issued whatever their outcome.
  The assignment to \<^verbatim>\<open>cache\<close> comes after the \<^verbatim>\<open>await\<close>. (The \<^verbatim>\<open>console.error\<close> line
  that reports the table sizes is not modelled.)
\<close>

definition initCache :: "api \<Rightarrow> cache option \<Rightarrow> (error + unit) \<times> cache option \<times> api" where
  "initCache a0 ch =
     (let (c, a1) = fetchCategories a0;
          (t, a2) = fetchTags a1;
          (m, a3) = fetchManualAccounts a2;
          (p, a4) = fetchPlaidAccounts a3
      in case promise_all (arrival a0) c t m p of
           Inl e \<Rightarrow> (Inl e, ch, a4)
         | Inr (cv, tv, mv, pv) \<Rightarrow>
             (Inr (),
              Some \<lparr>categories = cv, tags = tv, manualAccounts = mv, plaidAccounts = pv\<rparr>,
              a4))"

definition getCache :: "cache option \<Rightarrow> error + cache" where
  "getCache ch =
     (case ch of
        None \<Rightarrow> Inl (Error ''Cache not initialized. Call initCache() first.'')
      | Some c \<Rightarrow> Inr c)"

text \<open>
  \<^verbatim>\<open>refreshCache\<close>: \<^verbatim>\<open>getCache()\<close> runs before any request; the field of the cache object
  is assigned only after the awaited fetch has fulfilled.
\<close>

definition refreshCache ::
  "api \<Rightarrow> resource_type \<Rightarrow> cache option \<Rightarrow> (error + unit) \<times> cache option \<times> api"
where
  "refreshCache a type ch =
     (case getCache ch of
        Inl e \<Rightarrow> (Inl e, ch, a)
      | Inr c \<Rightarrow>
          (case type of
             Categories \<Rightarrow>
               (case fetchCategories a of
                  (Inl e, a') \<Rightarrow> (Inl e, Some c, a')
                | (Inr v, a') \<Rightarrow> (Inr (), Some (c\<lparr>categories := v\<rparr>), a'))
           | Tags \<Rightarrow>
               (case fetchTags a of
                  (Inl e, a') \<Rightarrow> (Inl e, Some c, a')
                | (Inr v, a') \<Rightarrow> (Inr (), Some (c\<lparr>tags := v\<rparr>), a'))
           | ManualAccounts \<Rightarrow>
               (case fetchManualAccounts a of
                  (Inl e, a') \<Rightarrow> (Inl e, Some c, a')
                | (Inr v, a') \<Rightarrow> (Inr (), Some (c\<lparr>manualAccounts := v\<rparr>), a'))
           | PlaidAccounts \<Rightarrow>
               (case fetchPlaidAccounts a of
                  (Inl e, a') \<Rightarrow> (Inl e, Some c, a')
                | (Inr v, a') \<Rightarrow> (Inr (), Some (c\<lparr>plaidAccounts := v\<rparr>), a'))))"

definition categoryName :: "cache option \<Rightarrow> int option \<Rightarrow> error + string" where
  "categoryName ch ident =
     (case ident of
        None \<Rightarrow> Inr ''Uncategorized''
      | Some i \<Rightarrow>
          (case getCache ch of
             Inl e \<Rightarrow> Inl e
           | Inr c \<Rightarrow>
               Inr (case categories c i of
                      Some cat \<Rightarrow> cat_name cat
                    | None \<Rightarrow> ''Category #'' @ number_to_string i)))"

definition tagNames :: "cache option \<Rightarrow> int list \<Rightarrow> error + string list" where
  "tagNames ch ids =
     (case getCache ch of
        Inl e \<Rightarrow> Inl e
      | Inr c \<Rightarrow>
          Inr (map (\<lambda>i. case tags c i of
                          Some t \<Rightarrow> tag_name t
                        | None \<Rightarrow> ''Tag #'' @ number_to_string i) ids))"

definition accountName :: "cache option \<Rightarrow> int option \<Rightarrow> int option \<Rightarrow> error + string" where
  "accountName ch manualId plaidId =
     (case getCache ch of
        Inl e \<Rightarrow> Inl e
      | Inr c \<Rightarrow>
          (case manualId of
             Some mi \<Rightarrow>
               Inr (case manualAccounts c mi of
                      None \<Rightarrow> ''Manual #'' @ number_to_string mi
                    | Some acct \<Rightarrow>
                        (case ma_display_name acct of
                           Some d \<Rightarrow> d
                         | None \<Rightarrow> ma_name acct))
           | None \<Rightarrow>
               (case plaidId of
                  Some pl \<Rightarrow>
                    Inr (case plaidAccounts c pl of
                           None \<Rightarrow> ''Plaid #'' @ number_to_string pl
                         | Some acct \<Rightarrow>
                             (case pa_display_name acct of
                                Some d \<Rightarrow> d
                              | None \<Rightarrow> pa_name acct))
                | None \<Rightarrow> Inr ''Cash'')))"

section \<open>The transaction formatter (format.ts, lines 13-28)\<close>

text \<open>
  The fields of \<^verbatim>\<open>transactionObject\<close> that \<^verbatim>\<open>formatTransaction\<close> reads. The amount is the
  decimal string the API sends.
\<close>

record transaction =
  tx_id :: int
  date :: string
  amount :: string
  currency :: string
  payee :: string
  category_id :: "int option"
  manual_account_id :: "int option"
  plaid_account_id :: "int option"
  tag_ids :: "int list"
  tx_notes :: "string option"
  status :: string

text \<open>
  \<^verbatim>\<open>formatAmount\<close> parses the amount as a floating-point number and prints it with
  \<^verbatim>\<open>toFixed(2)\<close> behind a currency symbol; it returns a string for every input and reads
  no state. The formatter takes it as the argument \<open>formatAmount\<close>, so that every result
  below holds whatever text it produces.

  The three cache calls are made in the order of the source (tags, account, category), and
  \<^verbatim>\<open>tagNames\<close> only when the transaction has tags. \<^verbatim>\<open>filter(Boolean)\<close> drops the empty
  strings of the array.
\<close>

definition formatTransaction ::
  "(string \<Rightarrow> string \<Rightarrow> string) \<Rightarrow> cache option \<Rightarrow> transaction \<Rightarrow> error + string"
where
  "formatTransaction formatAmount ch t =
     (case (if length (tag_ids t) > 0
            then (case tagNames ch (tag_ids t) of
                    Inl e \<Rightarrow> Inl e
                  | Inr ns \<Rightarrow> Inr ('' ['' @ join '', '' ns @ '']''))
            else Inr '''') of
        Inl e \<Rightarrow> Inl e
      | Inr tgs \<Rightarrow>
     (case accountName ch (manual_account_id t) (plaid_account_id t) of
        Inl e \<Rightarrow> Inl e
      | Inr account \<Rightarrow>
     (case categoryName ch (category_id t) of
        Inl e \<Rightarrow> Inl e
      | Inr category \<Rightarrow>
          (let notesLine =
                 (case tx_notes t of
                    None \<Rightarrow> ''''
                  | Some n \<Rightarrow> if n = '''' then '''' else ''\<newline>  Notes: '' @ n);
               statusFlag = (if status t = ''unreviewed'' then '' (unreviewed)'' else '''')
           in Inr (join ''\<newline>''
                (filter (\<lambda>s. s \<noteq> '''')
                   [date t @ ''  '' @ formatAmount (amount t) (currency t) @ ''  '' @ payee t,
                    ''  Category: '' @ category @ '' | Account: '' @ account
                      @ statusFlag @ tgs,
                    ''  ID: '' @ number_to_string (tx_id t),
                    notesLine]))))))"


section \<open>Auxiliary facts\<close>

lemma getCache_None [simp]:
  "getCache None = Inl (Error ''Cache not initialized. Call initCache() first.'')"
  by (simp add: getCache_def)

lemma getCache_Some [simp]: "getCache (Some c) = Inr c"
  by (simp add: getCache_def)

lemma number_to_string_5: "number_to_string 5 = ''5''"
  by (simp add: number_to_string_def string_of_nat.simps digit_def)

lemma number_to_string_20: "number_to_string 20 = ''20''"
  by (simp add: number_to_string_def string_of_nat.simps digit_def)

lemma number_to_string_42: "number_to_string 42 = ''42''"
  by (simp add: number_to_string_def string_of_nat.simps digit_def)

lemma fst_fetch [simp]:
  "fst (fetchCategories a) = snapshot cat_id (categories_response a)"
  "fst (fetchTags a) = snapshot tag_id (tags_response a)"
  "fst (fetchManualAccounts a) = snapshot ma_id (manual_accounts_response a)"
  "fst (fetchPlaidAccounts a) = snapshot pa_id (plaid_accounts_response a)"
  by (simp_all add: fetchCategories_def fetchTags_def fetchManualAccounts_def
        fetchPlaidAccounts_def)

lemma snd_fetch [simp]:
  "snd (fetchCategories a) = GET ''/categories'' a"
  "snd (fetchTags a) = GET ''/tags'' a"
  "snd (fetchManualAccounts a) = GET ''/manual_accounts'' a"
  "snd (fetchPlaidAccounts a) = GET ''/plaid_accounts'' a"
  by (simp_all add: fetchCategories_def fetchTags_def fetchManualAccounts_def
        fetchPlaidAccounts_def)

lemma GET_fields [simp]:
  "categories_response (GET p a) = categories_response a"
  "tags_response (GET p a) = tags_response a"
  "manual_accounts_response (GET p a) = manual_accounts_response a"
  "plaid_accounts_response (GET p a) = plaid_accounts_response a"
  "arrival (GET p a) = arrival a"
  "requests (GET p a) = requests a @ [p]"
  by (simp_all add: GET_def)

lemma earliest_mem: "earliest arr x xs \<in> snd ` set (x # xs)"
proof (induction arr x xs rule: earliest.induct)
  case (1 arr r e)
  then show ?case by simp
next
  case (2 arr r e r' e' xs)
  then show ?case by (cases "arr r' < arr r") auto
qed

lemma promise_all_Inr:
  "promise_all arr (Inr cv) (Inr tv) (Inr mv) (Inr pv) = Inr (cv, tv, mv, pv)"
  by (simp add: promise_all_def rejection_def)

lemma promise_all_Inl:
  assumes "isl c \<or> isl t \<or> isl m \<or> isl p"
  shows "\<exists>e. promise_all arr c t m p = Inl e
              \<and> (c = Inl e \<or> t = Inl e \<or> m = Inl e \<or> p = Inl e)"
proof -
  let ?rs = "rejection Categories c @ rejection Tags t
               @ rejection ManualAccounts m @ rejection PlaidAccounts p"
  from assms have "?rs \<noteq> []"
    by (auto simp: rejection_def isl_def)
  then obtain x xs where rs: "?rs = x # xs"
    by (cases ?rs) auto
  have "earliest arr x xs \<in> snd ` set ?rs"
    using earliest_mem [of arr x xs] rs by simp
  then have "c = Inl (earliest arr x xs) \<or> t = Inl (earliest arr x xs)
             \<or> m = Inl (earliest arr x xs) \<or> p = Inl (earliest arr x xs)"
    by (auto simp: rejection_def split: sum.splits)
  moreover have "promise_all arr c t m p = Inl (earliest arr x xs)"
    using rs by (simp add: promise_all_def)
  ultimately show ?thesis by blast
qed

lemma initCache_requests:
  "snd (snd (initCache a ch)) =
     GET ''/plaid_accounts'' (GET ''/manual_accounts'' (GET ''/tags'' (GET ''/categories'' a)))"
  by (simp add: initCache_def fetchCategories_def fetchTags_def fetchManualAccounts_def
        fetchPlaidAccounts_def split: sum.splits prod.splits)

lemma initCache_result:
  "(fst (initCache a ch), fst (snd (initCache a ch))) =
     (case promise_all (arrival a) (snapshot cat_id (categories_response a))
             (snapshot tag_id (tags_response a))
             (snapshot ma_id (manual_accounts_response a))
             (snapshot pa_id (plaid_accounts_response a)) of
        Inl e \<Rightarrow> (Inl e, ch)
      | Inr (cv, tv, mv, pv) \<Rightarrow>
          (Inr (), Some \<lparr>categories = cv, tags = tv, manualAccounts = mv, plaidAccounts = pv\<rparr>))"
  by (simp add: initCache_def fetchCategories_def fetchTags_def fetchManualAccounts_def
        fetchPlaidAccounts_def split: sum.splits prod.splits)

lemma refreshCache_unfold:
  "refreshCache a t (Some c) =
     (case t of
        Categories \<Rightarrow>
          (case snapshot cat_id (categories_response a) of
             Inl e \<Rightarrow> (Inl e, Some c, GET ''/categories'' a)
           | Inr v \<Rightarrow> (Inr (), Some (c\<lparr>categories := v\<rparr>), GET ''/categories'' a))
      | Tags \<Rightarrow>
          (case snapshot tag_id (tags_response a) of
             Inl e \<Rightarrow> (Inl e, Some c, GET ''/tags'' a)
           | Inr v \<Rightarrow> (Inr (), Some (c\<lparr>tags := v\<rparr>), GET ''/tags'' a))
      | ManualAccounts \<Rightarrow>
          (case snapshot ma_id (manual_accounts_response a) of
             Inl e \<Rightarrow> (Inl e, Some c, GET ''/manual_accounts'' a)
           | Inr v \<Rightarrow> (Inr (), Some (c\<lparr>manualAccounts := v\<rparr>), GET ''/manual_accounts'' a))
      | PlaidAccounts \<Rightarrow>
          (case snapshot pa_id (plaid_accounts_response a) of
             Inl e \<Rightarrow> (Inl e, Some c, GET ''/plaid_accounts'' a)
           | Inr v \<Rightarrow> (Inr (), Some (c\<lparr>plaidAccounts := v\<rparr>), GET ''/plaid_accounts'' a)))"
  by (simp add: refreshCache_def fetchCategories_def fetchTags_def fetchManualAccounts_def
        fetchPlaidAccounts_def split: resource_type.splits sum.splits)

text \<open>
  When a fetcher throws, in terms of what the client answered: the call rejected, or the
  answer carried a truthy error value.
\<close>

lemma snapshot_throws:
  "isl (snapshot key r) =
     (case r of Rejected msg \<Rightarrow> True | ErrorResponse st body \<Rightarrow> truthy body
      | Data d \<Rightarrow> False)"
  by (cases r) (simp_all add: snapshot_def)

lemma snapshot_falsy_error:
  "\<not> truthy body \<Longrightarrow> snapshot key (ErrorResponse st body) = Inr Map.empty"
  by (simp add: snapshot_def collect_def)

text \<open>
  Relative to the outcomes of its four fetchers, \<^verbatim>\<open>initCache\<close> is all or nothing: the four
  requests are issued, the cache is published exactly when no fetcher throws, and
  otherwise the call fails with the error of a fetcher and the cache variable is left as
  it was.
\<close>

lemma initCache_by_fetch_outcomes:
  "initCache a ch = (r, ch', a') \<Longrightarrow>
     requests a' =
       requests a @ [''/categories'', ''/tags'', ''/manual_accounts'', ''/plaid_accounts'']
     \<and> (if \<not> isl (fst (fetchCategories a)) \<and> \<not> isl (fst (fetchTags a))
            \<and> \<not> isl (fst (fetchManualAccounts a)) \<and> \<not> isl (fst (fetchPlaidAccounts a))
         then r = Inr ()
              \<and> ch' = Some \<lparr>categories = projr (fst (fetchCategories a)),
                             tags = projr (fst (fetchTags a)),
                             manualAccounts = projr (fst (fetchManualAccounts a)),
                             plaidAccounts = projr (fst (fetchPlaidAccounts a))\<rparr>
         else (\<exists>e. r = Inl e
                 \<and> (fst (fetchCategories a) = Inl e \<or> fst (fetchTags a) = Inl e
                      \<or> fst (fetchManualAccounts a) = Inl e
                      \<or> fst (fetchPlaidAccounts a) = Inl e))
              \<and> ch' = ch
              \<and> (ch = None \<longrightarrow>
                    categoryName ch' (Some i)
                      = Inl (Error ''Cache not initialized. Call initCache() first.'')
                    \<and> tagNames ch' ids
                      = Inl (Error ''Cache not initialized. Call initCache() first.'')
                    \<and> accountName ch' manualId plaidId
                      = Inl (Error ''Cache not initialized. Call initCache() first.'')))"
proof -
  assume run: "initCache a ch = (r, ch', a')"
  let ?c = "snapshot cat_id (categories_response a)"
  let ?t = "snapshot tag_id (tags_response a)"
  let ?m = "snapshot ma_id (manual_accounts_response a)"
  let ?p = "snapshot pa_id (plaid_accounts_response a)"
  have log: "requests a' =
      requests a @ [''/categories'', ''/tags'', ''/manual_accounts'', ''/plaid_accounts'']"
    using initCache_requests [of a ch] run by simp
  have res: "(r, ch') =
      (case promise_all (arrival a) ?c ?t ?m ?p of
         Inl e \<Rightarrow> (Inl e, ch)
       | Inr (cv, tv, mv, pv) \<Rightarrow>
           (Inr (), Some \<lparr>categories = cv, tags = tv, manualAccounts = mv,
                           plaidAccounts = pv\<rparr>))"
    using initCache_result [of a ch] run by simp
  show ?thesis
  proof (cases "isl ?c \<or> isl ?t \<or> isl ?m \<or> isl ?p")
    case True
    then obtain e where e: "promise_all (arrival a) ?c ?t ?m ?p = Inl e"
      and src: "?c = Inl e \<or> ?t = Inl e \<or> ?m = Inl e \<or> ?p = Inl e"
      using promise_all_Inl [of ?c ?t ?m ?p "arrival a"] by blast
    from res e have "r = Inl e" and "ch' = ch" by simp_all
    with True src log show ?thesis
      by (auto simp: categoryName_def tagNames_def accountName_def)
  next
    case False
    then obtain cv tv mv pv where v: "?c = Inr cv" "?t = Inr tv" "?m = Inr mv" "?p = Inr pv"
      by (auto simp: isl_def) (metis sum.exhaust)+
    with res have "r = Inr ()" and
      "ch' = Some \<lparr>categories = cv, tags = tv, manualAccounts = mv, plaidAccounts = pv\<rparr>"
      by (simp_all add: promise_all_Inr)
    with v log show ?thesis by simp
  qed
qed

text \<open>
  When the fetcher inside \<^verbatim>\<open>refreshCache(t)\<close> throws \<open>e\<close>, the call fails with \<open>e\<close>, the
  cache is what it was, and one request was issued, to the endpoint of \<open>t\<close>.
\<close>

lemma refreshCache_fetch_throws:
  "refreshCache a t (Some c) = (r, ch', a') \<Longrightarrow>
   (case t of
      Categories \<Rightarrow> fst (fetchCategories a) = Inl e
    | Tags \<Rightarrow> fst (fetchTags a) = Inl e
    | ManualAccounts \<Rightarrow> fst (fetchManualAccounts a) = Inl e
    | PlaidAccounts \<Rightarrow> fst (fetchPlaidAccounts a) = Inl e) \<Longrightarrow>
     r = Inl e \<and> ch' = Some c
     \<and> requests a' =
         requests a @ [case t of
                         Categories \<Rightarrow> ''/categories''
                       | Tags \<Rightarrow> ''/tags''
                       | ManualAccounts \<Rightarrow> ''/manual_accounts''
                       | PlaidAccounts \<Rightarrow> ''/plaid_accounts'']"
  by (cases t) (auto simp: refreshCache_unfold split: sum.splits)

section \<open>Initialization is all or nothing\<close>

text \<open>
  Claim C1. The claim requires that \<^verbatim>\<open>initCache\<close> fails as a whole, and leaves the cache
  uninitialized, whenever one of the four fetches fails. The code does not do this when
  the failed request is answered with an empty body. Here the tags request is answered
  with status 401 and no body while the three other requests succeed: the error value is
  the empty string, \<^verbatim>\<open>if (error)\<close> in \<^verbatim>\<open>fetchTags\<close> is not taken, \<^verbatim>\<open>handleError\<close> is never
  called, and \<^verbatim>\<open>fetchTags\<close> returns an empty map. \<^verbatim>\<open>initCache\<close> succeeds and publishes a
  cache whose tags table is empty, and a later \<^verbatim>\<open>tagNames\<close> answers from that table.
\<close>

theorem initCache_empty_error_body:
  "initCache
     \<lparr>categories_response = Data (Some [\<lparr>cat_id = 1, cat_name = ''Food''\<rparr>]),
      tags_response = ErrorResponse 401 (JString ''''),
      manual_accounts_response = Data (Some []),
      plaid_accounts_response = Data None,
      arrival = (\<lambda>r. 0), requests = []\<rparr> None
   = (Inr (),
      Some \<lparr>categories = [1 \<mapsto> \<lparr>cat_id = 1, cat_name = ''Food''\<rparr>],
            tags = Map.empty, manualAccounts = Map.empty, plaidAccounts = Map.empty\<rparr>,
      \<lparr>categories_response = Data (Some [\<lparr>cat_id = 1, cat_name = ''Food''\<rparr>]),
       tags_response = ErrorResponse 401 (JString ''''),
       manual_accounts_response = Data (Some []),
       plaid_accounts_response = Data None,
       arrival = (\<lambda>r. 0),
       requests = [''/categories'', ''/tags'', ''/manual_accounts'', ''/plaid_accounts'']\<rparr>)
   \<and> tagNames
       (Some \<lparr>categories = [1 \<mapsto> \<lparr>cat_id = 1, cat_name = ''Food''\<rparr>],
              tags = Map.empty, manualAccounts = Map.empty, plaidAccounts = Map.empty\<rparr>)
       [10] = Inr [''Tag #10'']"
proof -
  let ?a = "\<lparr>categories_response = Data (Some [\<lparr>cat_id = 1, cat_name = ''Food''\<rparr>]),
      tags_response = ErrorResponse 401 (JString ''''),
      manual_accounts_response = Data (Some []),
      plaid_accounts_response = Data None,
      arrival = (\<lambda>r. 0), requests = []\<rparr>"
  have log: "snd (snd (initCache ?a None)) =
      ?a\<lparr>requests := [''/categories'', ''/tags'', ''/manual_accounts'', ''/plaid_accounts'']\<rparr>"
    by (simp add: initCache_requests GET_def)
  have res: "(fst (initCache ?a None), fst (snd (initCache ?a None))) =
      (Inr (),
       Some \<lparr>categories = [1 \<mapsto> \<lparr>cat_id = 1, cat_name = ''Food''\<rparr>],
             tags = Map.empty, manualAccounts = Map.empty, plaidAccounts = Map.empty\<rparr>)"
    by (simp add: initCache_result snapshot_def collect_def promise_all_Inr)
  have ten: "number_to_string 10 = ''10''"
    by (simp add: number_to_string_def string_of_nat.simps digit_def)
  from res have "fst (initCache ?a None) = Inr ()"
    and "fst (snd (initCache ?a None)) =
       Some \<lparr>categories = [1 \<mapsto> \<lparr>cat_id = 1, cat_name = ''Food''\<rparr>],
             tags = Map.empty, manualAccounts = Map.empty, plaidAccounts = Map.empty\<rparr>"
    by simp_all
  with log ten show ?thesis
    by (simp add: prod_eq_iff tagNames_def)
qed

text \<open>
  The same answer with a JSON object as its body is thrown by \<^verbatim>\<open>handleError\<close>, and then
  initialization behaves as the claim says: it fails with that error, nothing is
  published, and the queries on the cache throw. With a tags endpoint that answers
  with data, the four tables are published.
\<close>

lemma initCache_json_error_body:
  "initCache
     \<lparr>categories_response = Data (Some [\<lparr>cat_id = 1, cat_name = ''Food''\<rparr>]),
      tags_response = ErrorResponse 401 (JObject \<lparr>message = None, errors = None\<rparr>),
      manual_accounts_response = Data (Some []),
      plaid_accounts_response = Data None,
      arrival = (\<lambda>r. 0), requests = []\<rparr> None
   = (Inl (ApiError 401 ''API token invalid or expired. Check LUNCHMONEY_TOKEN.''), None,
      \<lparr>categories_response = Data (Some [\<lparr>cat_id = 1, cat_name = ''Food''\<rparr>]),
       tags_response = ErrorResponse 401 (JObject \<lparr>message = None, errors = None\<rparr>),
       manual_accounts_response = Data (Some []),
       plaid_accounts_response = Data None,
       arrival = (\<lambda>r. 0),
       requests = [''/categories'', ''/tags'', ''/manual_accounts'', ''/plaid_accounts'']\<rparr>)
   \<and> categoryName None (Some 1)
       = Inl (Error ''Cache not initialized. Call initCache() first.'')
   \<and> tagNames None [10] = Inl (Error ''Cache not initialized. Call initCache() first.'')
   \<and> accountName None (Some 3) None
       = Inl (Error ''Cache not initialized. Call initCache() first.'')
   \<and> initCache
     \<lparr>categories_response = Data (Some [\<lparr>cat_id = 1, cat_name = ''Food''\<rparr>]),
      tags_response = Data (Some [\<lparr>tag_id = 10, tag_name = ''work''\<rparr>]),
      manual_accounts_response = Data (Some []),
      plaid_accounts_response = Data None,
      arrival = (\<lambda>r. 0), requests = []\<rparr> None
   = (Inr (),
      Some \<lparr>categories = [1 \<mapsto> \<lparr>cat_id = 1, cat_name = ''Food''\<rparr>],
            tags = [10 \<mapsto> \<lparr>tag_id = 10, tag_name = ''work''\<rparr>],
            manualAccounts = Map.empty, plaidAccounts = Map.empty\<rparr>,
      \<lparr>categories_response = Data (Some [\<lparr>cat_id = 1, cat_name = ''Food''\<rparr>]),
       tags_response = Data (Some [\<lparr>tag_id = 10, tag_name = ''work''\<rparr>]),
       manual_accounts_response = Data (Some []),
       plaid_accounts_response = Data None,
       arrival = (\<lambda>r. 0),
       requests = [''/categories'', ''/tags'', ''/manual_accounts'', ''/plaid_accounts'']\<rparr>)"
proof -
  let ?down = "\<lparr>categories_response = Data (Some [\<lparr>cat_id = 1, cat_name = ''Food''\<rparr>]),
      tags_response = ErrorResponse 401 (JObject \<lparr>message = None, errors = None\<rparr>),
      manual_accounts_response = Data (Some []),
      plaid_accounts_response = Data None,
      arrival = (\<lambda>r. 0), requests = []\<rparr>"
  let ?up = "\<lparr>categories_response = Data (Some [\<lparr>cat_id = 1, cat_name = ''Food''\<rparr>]),
      tags_response = Data (Some [\<lparr>tag_id = 10, tag_name = ''work''\<rparr>]),
      manual_accounts_response = Data (Some []),
      plaid_accounts_response = Data None,
      arrival = (\<lambda>r. 0), requests = []\<rparr>"
  have run_down: "initCache ?down None =
      (fst (initCache ?down None), fst (snd (initCache ?down None)),
       snd (snd (initCache ?down None)))"
    by simp
  have run_up: "initCache ?up None =
      (fst (initCache ?up None), fst (snd (initCache ?up None)),
       snd (snd (initCache ?up None)))"
    by simp
  have api_down: "snd (snd (initCache ?down None)) =
      ?down\<lparr>requests := [''/categories'', ''/tags'', ''/manual_accounts'', ''/plaid_accounts'']\<rparr>"
    by (simp add: initCache_requests GET_def)
  have api_up: "snd (snd (initCache ?up None)) =
      ?up\<lparr>requests := [''/categories'', ''/tags'', ''/manual_accounts'', ''/plaid_accounts'']\<rparr>"
    by (simp add: initCache_requests GET_def)
  have tags_down: "fst (fetchTags ?down) =
      Inl (ApiError 401 ''API token invalid or expired. Check LUNCHMONEY_TOKEN.'')"
    by (simp add: snapshot_def handleError_def)
  have others: "fst (fetchCategories ?down) = Inr [1 \<mapsto> \<lparr>cat_id = 1, cat_name = ''Food''\<rparr>]"
    "fst (fetchManualAccounts ?down) = Inr Map.empty"
    "fst (fetchPlaidAccounts ?down) = Inr Map.empty"
    "fst (fetchCategories ?up) = Inr [1 \<mapsto> \<lparr>cat_id = 1, cat_name = ''Food''\<rparr>]"
    "fst (fetchTags ?up) = Inr [10 \<mapsto> \<lparr>tag_id = 10, tag_name = ''work''\<rparr>]"
    "fst (fetchManualAccounts ?up) = Inr Map.empty"
    "fst (fetchPlaidAccounts ?up) = Inr Map.empty"
    by (simp_all add: snapshot_def collect_def)
  have down: "fst (initCache ?down None) =
        Inl (ApiError 401 ''API token invalid or expired. Check LUNCHMONEY_TOKEN.'')
      \<and> fst (snd (initCache ?down None)) = None
      \<and> categoryName None (Some 1)
          = Inl (Error ''Cache not initialized. Call initCache() first.'')
      \<and> tagNames None [10] = Inl (Error ''Cache not initialized. Call initCache() first.'')
      \<and> accountName None (Some 3) None
          = Inl (Error ''Cache not initialized. Call initCache() first.'')"
    using initCache_by_fetch_outcomes [OF run_down, of 1 "[10]" "Some 3" None]
    unfolding tags_down others by auto
  have up: "fst (initCache ?up None) = Inr ()
      \<and> fst (snd (initCache ?up None)) =
          Some \<lparr>categories = [1 \<mapsto> \<lparr>cat_id = 1, cat_name = ''Food''\<rparr>],
                tags = [10 \<mapsto> \<lparr>tag_id = 10, tag_name = ''work''\<rparr>],
                manualAccounts = Map.empty, plaidAccounts = Map.empty\<rparr>"
    using initCache_by_fetch_outcomes [OF run_up, of 1 "[10]" "Some 3" None]
    unfolding others by simp
  show ?thesis
    by (simp add: prod_eq_iff down up api_down api_up)
qed

section \<open>A refresh touches one table\<close>

text \<open>
  Claim C2. On an initialized cache, \<^verbatim>\<open>refreshCache(t)\<close> leaves an initialized cache whose
  tables other than \<open>t\<close> are the tables it had before; in particular
  \<^verbatim>\<open>refreshCache("tags")\<close> leaves categories, manual accounts and plaid accounts
  unchanged. When the call succeeds, table \<open>t\<close> is the freshly fetched snapshot.
\<close>

theorem refreshCache_frame:
  "refreshCache a t (Some c) = (r, ch', a') \<Longrightarrow>
     \<exists>c'. ch' = Some c'
       \<and> (t \<noteq> Categories \<longrightarrow> categories c' = categories c)
       \<and> (t \<noteq> Tags \<longrightarrow> tags c' = tags c)
       \<and> (t \<noteq> ManualAccounts \<longrightarrow> manualAccounts c' = manualAccounts c)
       \<and> (t \<noteq> PlaidAccounts \<longrightarrow> plaidAccounts c' = plaidAccounts c)
       \<and> (r = Inr () \<longrightarrow>
            (case t of
               Categories \<Rightarrow> fst (fetchCategories a) = Inr (categories c')
             | Tags \<Rightarrow> fst (fetchTags a) = Inr (tags c')
             | ManualAccounts \<Rightarrow> fst (fetchManualAccounts a) = Inr (manualAccounts c')
             | PlaidAccounts \<Rightarrow> fst (fetchPlaidAccounts a) = Inr (plaidAccounts c')))"
  by (cases t) (auto simp: refreshCache_unfold split: sum.splits)

text \<open>A refresh of the tags while the three other endpoints are unreachable.\<close>

theorem refreshCache_frame_witness:
  "refreshCache
     \<lparr>categories_response = Rejected ''offline'',
      tags_response = Data (Some [\<lparr>tag_id = 10, tag_name = ''work''\<rparr>,
                                  \<lparr>tag_id = 11, tag_name = ''home''\<rparr>]),
      manual_accounts_response = Rejected ''offline'',
      plaid_accounts_response = Rejected ''offline'',
      arrival = (\<lambda>r. 0), requests = []\<rparr>
     Tags
     (Some \<lparr>categories = [1 \<mapsto> \<lparr>cat_id = 1, cat_name = ''Food''\<rparr>],
            tags = [10 \<mapsto> \<lparr>tag_id = 10, tag_name = ''work''\<rparr>],
            manualAccounts = Map.empty, plaidAccounts = Map.empty\<rparr>)
   = (Inr (),
      Some \<lparr>categories = [1 \<mapsto> \<lparr>cat_id = 1, cat_name = ''Food''\<rparr>],
            tags = [10 \<mapsto> \<lparr>tag_id = 10, tag_name = ''work''\<rparr>,
                    11 \<mapsto> \<lparr>tag_id = 11, tag_name = ''home''\<rparr>],
            manualAccounts = Map.empty, plaidAccounts = Map.empty\<rparr>,
      \<lparr>categories_response = Rejected ''offline'',
       tags_response = Data (Some [\<lparr>tag_id = 10, tag_name = ''work''\<rparr>,
                                   \<lparr>tag_id = 11, tag_name = ''home''\<rparr>]),
       manual_accounts_response = Rejected ''offline'',
       plaid_accounts_response = Rejected ''offline'',
       arrival = (\<lambda>r. 0), requests = [''/tags'']\<rparr>)"
proof -
  let ?a = "\<lparr>categories_response = Rejected ''offline'',
      tags_response = Data (Some [\<lparr>tag_id = 10, tag_name = ''work''\<rparr>,
                                  \<lparr>tag_id = 11, tag_name = ''home''\<rparr>]),
      manual_accounts_response = Rejected ''offline'',
      plaid_accounts_response = Rejected ''offline'',
      arrival = (\<lambda>r. 0), requests = []\<rparr>"
  let ?c = "\<lparr>categories = [1 \<mapsto> \<lparr>cat_id = 1, cat_name = ''Food''\<rparr>],
            tags = [10 \<mapsto> \<lparr>tag_id = 10, tag_name = ''work''\<rparr>],
            manualAccounts = Map.empty, plaidAccounts = Map.empty\<rparr>"
  have run: "refreshCache ?a Tags (Some ?c) =
      (fst (refreshCache ?a Tags (Some ?c)), fst (snd (refreshCache ?a Tags (Some ?c))),
       snd (snd (refreshCache ?a Tags (Some ?c))))"
    by simp
  have ok: "fst (refreshCache ?a Tags (Some ?c)) = Inr ()"
    by (simp add: refreshCache_unfold snapshot_def)
  have log: "snd (snd (refreshCache ?a Tags (Some ?c))) = ?a\<lparr>requests := [''/tags'']\<rparr>"
    by (simp add: refreshCache_unfold snapshot_def GET_def)
  have fetched: "fst (fetchTags ?a) =
      Inr [10 \<mapsto> \<lparr>tag_id = 10, tag_name = ''work''\<rparr>,
           11 \<mapsto> \<lparr>tag_id = 11, tag_name = ''home''\<rparr>]"
    by (simp add: snapshot_def collect_def)
  from refreshCache_frame [OF run] obtain c' where
    c': "fst (snd (refreshCache ?a Tags (Some ?c))) = Some c'"
    and frame: "categories c' = categories ?c" "manualAccounts c' = manualAccounts ?c"
      "plaidAccounts c' = plaidAccounts ?c"
    and new: "fst (fetchTags ?a) = Inr (tags c')"
    using ok by auto
  from new fetched have "tags c' = [10 \<mapsto> \<lparr>tag_id = 10, tag_name = ''work''\<rparr>,
           11 \<mapsto> \<lparr>tag_id = 11, tag_name = ''home''\<rparr>]"
    by simp
  with frame have "c' = \<lparr>categories = [1 \<mapsto> \<lparr>cat_id = 1, cat_name = ''Food''\<rparr>],
            tags = [10 \<mapsto> \<lparr>tag_id = 10, tag_name = ''work''\<rparr>,
                    11 \<mapsto> \<lparr>tag_id = 11, tag_name = ''home''\<rparr>],
            manualAccounts = Map.empty, plaidAccounts = Map.empty\<rparr>"
    by (cases c') simp
  with c' ok log show ?thesis
    by (simp add: prod_eq_iff)
qed

section \<open>Category names\<close>

text \<open>
  Claim C3. On an initialized cache, \<^verbatim>\<open>categoryName\<close> returns "Uncategorized" for null,
  the stored name for an id of the categories table, and "Category #" followed by the id
  for an id that is not in the table; it never throws. With the categories 1 "Food" and
  2 "Rent": id 1 gives "Food", id 5 gives "Category #5", null gives "Uncategorized".
\<close>

theorem categoryName_resolves:
  "categoryName (Some c) None = Inr ''Uncategorized''
   \<and> (categories c i = Some cat \<longrightarrow> categoryName (Some c) (Some i) = Inr (cat_name cat))
   \<and> (categories c i = None \<longrightarrow>
        categoryName (Some c) (Some i) = Inr (''Category #'' @ number_to_string i))
   \<and> (categories c = [1 \<mapsto> \<lparr>cat_id = 1, cat_name = ''Food''\<rparr>,
                       2 \<mapsto> \<lparr>cat_id = 2, cat_name = ''Rent''\<rparr>] \<longrightarrow>
        categoryName (Some c) (Some 1) = Inr ''Food''
        \<and> categoryName (Some c) (Some 5) = Inr ''Category #5''
        \<and> categoryName (Some c) None = Inr ''Uncategorized'')"
  by (simp add: categoryName_def number_to_string_5)

text \<open>The scenario on a concrete cache, with a present, an absent and a negative id.\<close>

theorem categoryName_resolves_witness:
  "categoryName
     (Some \<lparr>categories = [1 \<mapsto> \<lparr>cat_id = 1, cat_name = ''Food''\<rparr>,
                          2 \<mapsto> \<lparr>cat_id = 2, cat_name = ''Rent''\<rparr>],
            tags = Map.empty, manualAccounts = Map.empty, plaidAccounts = Map.empty\<rparr>)
     (Some 1) = Inr ''Food''
   \<and> categoryName
     (Some \<lparr>categories = [1 \<mapsto> \<lparr>cat_id = 1, cat_name = ''Food''\<rparr>,
                          2 \<mapsto> \<lparr>cat_id = 2, cat_name = ''Rent''\<rparr>],
            tags = Map.empty, manualAccounts = Map.empty, plaidAccounts = Map.empty\<rparr>)
     (Some 2) = Inr ''Rent''
   \<and> categoryName
     (Some \<lparr>categories = [1 \<mapsto> \<lparr>cat_id = 1, cat_name = ''Food''\<rparr>,
                          2 \<mapsto> \<lparr>cat_id = 2, cat_name = ''Rent''\<rparr>],
            tags = Map.empty, manualAccounts = Map.empty, plaidAccounts = Map.empty\<rparr>)
     (Some 5) = Inr ''Category #5''
   \<and> categoryName
     (Some \<lparr>categories = [1 \<mapsto> \<lparr>cat_id = 1, cat_name = ''Food''\<rparr>,
                          2 \<mapsto> \<lparr>cat_id = 2, cat_name = ''Rent''\<rparr>],
            tags = Map.empty, manualAccounts = Map.empty, plaidAccounts = Map.empty\<rparr>)
     (Some (- 7)) = Inr ''Category #-7''"
proof -
  let ?c = "\<lparr>categories = [1 \<mapsto> \<lparr>cat_id = 1, cat_name = ''Food''\<rparr>,
                          2 \<mapsto> \<lparr>cat_id = 2, cat_name = ''Rent''\<rparr>],
            tags = Map.empty, manualAccounts = Map.empty, plaidAccounts = Map.empty\<rparr>"
  have two: "categories ?c 2 = Some \<lparr>cat_id = 2, cat_name = ''Rent''\<rparr>" by simp
  have absent: "categories ?c (- 7) = None" by simp
  have tbl: "categories ?c = [1 \<mapsto> \<lparr>cat_id = 1, cat_name = ''Food''\<rparr>,
                          2 \<mapsto> \<lparr>cat_id = 2, cat_name = ''Rent''\<rparr>]" by simp
  have "number_to_string (- 7) = ''-7''"
    by (simp add: number_to_string_def string_of_nat.simps digit_def)
  then show ?thesis
    using categoryName_resolves [of ?c 2 "\<lparr>cat_id = 2, cat_name = ''Rent''\<rparr>"]
      categoryName_resolves [of ?c "- 7"] two absent tbl
    by simp
qed

section \<open>The cash account\<close>

text \<open>
  Claim C4, as amended. On every initialized cache \<^verbatim>\<open>accountName(null, null)\<close> returns
  "Cash". On the uninitialized cache the call throws "Cache not initialized":
  \<^verbatim>\<open>getCache()\<close> is the first statement of \<^verbatim>\<open>accountName\<close>, ahead of both null tests.
\<close>

theorem accountName_cash:
  "accountName (Some c) None None = Inr ''Cash''
   \<and> accountName None None None
       = Inl (Error ''Cache not initialized. Call initCache() first.'')"
  by (simp add: accountName_def)

text \<open>
  The claim as stated, that the call returns "Cash" in every cache state, fails on the
  cache that was never initialized.
\<close>

theorem accountName_cash_uninitialized_counterexample:
  "accountName None None None \<noteq> Inr ''Cash''"
  by (simp add: accountName_def)

section \<open>Tag names\<close>

text \<open>
  Claim C5. On an initialized cache, \<^verbatim>\<open>tagNames\<close> returns a list as long as its argument,
  whose k-th string belongs to the k-th id: the stored tag name when the id is in the
  tags table, and "Tag #" followed by the id otherwise. Order and duplicates are those of
  the argument. With the single tag 10 "work", the ids [10, 20] give ["work", "Tag #20"].
\<close>

theorem tagNames_pointwise:
  "(\<exists>ns. tagNames (Some c) ids = Inr ns
        \<and> length ns = length ids
        \<and> (\<forall>k<length ids.
              (\<forall>t. tags c (ids ! k) = Some t \<longrightarrow> ns ! k = tag_name t)
              \<and> (tags c (ids ! k) = None \<longrightarrow>
                    ns ! k = ''Tag #'' @ number_to_string (ids ! k))))
   \<and> (tags c = [10 \<mapsto> \<lparr>tag_id = 10, tag_name = ''work''\<rparr>] \<longrightarrow>
        tagNames (Some c) [10, 20] = Inr [''work'', ''Tag #20''])"
  by (simp add: tagNames_def number_to_string_20)

text \<open>The scenario, and a list with a repeated id.\<close>

theorem tagNames_pointwise_witness:
  "(2::nat) < length [10, 20, 10 :: int]
   \<and> (\<exists>ns. tagNames
          (Some \<lparr>categories = Map.empty,
                 tags = [10 \<mapsto> \<lparr>tag_id = 10, tag_name = ''work''\<rparr>],
                 manualAccounts = Map.empty, plaidAccounts = Map.empty\<rparr>)
          [10, 20, 10] = Inr ns
        \<and> length ns = 3 \<and> ns ! 0 = ''work'' \<and> ns ! 1 = ''Tag #20'' \<and> ns ! 2 = ''work'')
   \<and> tagNames
        (Some \<lparr>categories = Map.empty,
               tags = [10 \<mapsto> \<lparr>tag_id = 10, tag_name = ''work''\<rparr>],
               manualAccounts = Map.empty, plaidAccounts = Map.empty\<rparr>)
        [10, 20] = Inr [''work'', ''Tag #20'']"
proof -
  let ?c = "\<lparr>categories = Map.empty,
                 tags = [10 \<mapsto> \<lparr>tag_id = 10, tag_name = ''work''\<rparr>],
                 manualAccounts = Map.empty, plaidAccounts = Map.empty\<rparr>"
  have tbl: "tags ?c = [10 \<mapsto> \<lparr>tag_id = 10, tag_name = ''work''\<rparr>]" by simp
  from tagNames_pointwise [of ?c "[10, 20, 10]"] obtain ns where
    ns: "tagNames (Some ?c) [10, 20, 10] = Inr ns" "length ns = 3"
    and pt: "\<forall>k<3. (\<forall>t. tags ?c ([10, 20, 10] ! k) = Some t \<longrightarrow> ns ! k = tag_name t)
                \<and> (tags ?c ([10, 20, 10] ! k) = None \<longrightarrow>
                      ns ! k = ''Tag #'' @ number_to_string ([10, 20, 10] ! k))"
    by auto
  from pt have "ns ! 0 = ''work''" "ns ! 2 = ''work''" by simp_all
  moreover from pt have "ns ! 1 = ''Tag #'' @ number_to_string 20"
    using pt [rule_format, of 1] by simp
  ultimately have "ns ! 0 = ''work'' \<and> ns ! 1 = ''Tag #20'' \<and> ns ! 2 = ''work''"
    by (simp add: number_to_string_20)
  with ns tagNames_pointwise [of ?c "[10, 20]"] tbl show ?thesis
    by simp
qed

section \<open>Display names of manual accounts\<close>

text \<open>
  Claim C6. On an initialized cache that holds manual account \<open>m\<close>,
  \<^verbatim>\<open>accountName(m, null)\<close> returns the display name of the account when it has one and its
  name otherwise. So account 3 named "Checking" without display name resolves to
  "Checking", and after \<^verbatim>\<open>refreshCache("manualAccounts")\<close> has fetched a snapshot in which
  account 3 has the display name "Main", the same call returns "Main".
\<close>

theorem accountName_manual_display:
  "(manualAccounts c m = Some acct \<and> ma_display_name acct = Some d \<longrightarrow>
      accountName (Some c) (Some m) None = Inr d)
   \<and> (manualAccounts c m = Some acct \<and> ma_display_name acct = None \<longrightarrow>
      accountName (Some c) (Some m) None = Inr (ma_name acct))
   \<and> (manualAccounts c 3
         = Some \<lparr>ma_id = 3, ma_name = ''Checking'', ma_display_name = None\<rparr> \<longrightarrow>
      accountName (Some c) (Some 3) None = Inr ''Checking'')
   \<and> (fst (fetchManualAccounts a) = Inr v \<and> v 3 = Some acct'
        \<and> ma_display_name acct' = Some ''Main'' \<longrightarrow>
      accountName (fst (snd (refreshCache a ManualAccounts (Some c)))) (Some 3) None
        = Inr ''Main'')"
  by (auto simp: accountName_def refreshCache_unfold)

text \<open>The scenario: the stale table, a table with the display name set, the fetched
  snapshot, and the call after the refresh.\<close>

theorem accountName_manual_display_witness:
  "accountName
     (Some \<lparr>categories = Map.empty, tags = Map.empty,
            manualAccounts =
              [3 \<mapsto> \<lparr>ma_id = 3, ma_name = ''Checking'', ma_display_name = None\<rparr>],
            plaidAccounts = Map.empty\<rparr>)
     (Some 3) None = Inr ''Checking''
   \<and> accountName
     (Some \<lparr>categories = Map.empty, tags = Map.empty,
            manualAccounts =
              [3 \<mapsto> \<lparr>ma_id = 3, ma_name = ''Checking'', ma_display_name = Some ''Main''\<rparr>],
            plaidAccounts = Map.empty\<rparr>)
     (Some 3) None = Inr ''Main''
   \<and> fst (fetchManualAccounts
        \<lparr>categories_response = Data None, tags_response = Data None,
         manual_accounts_response =
           Data (Some [\<lparr>ma_id = 3, ma_name = ''Checking'', ma_display_name = Some ''Main''\<rparr>]),
         plaid_accounts_response = Data None,
         arrival = (\<lambda>r. 0), requests = []\<rparr>)
       = Inr [3 \<mapsto> \<lparr>ma_id = 3, ma_name = ''Checking'', ma_display_name = Some ''Main''\<rparr>]
   \<and> accountName
     (fst (snd (refreshCache
        \<lparr>categories_response = Data None, tags_response = Data None,
         manual_accounts_response =
           Data (Some [\<lparr>ma_id = 3, ma_name = ''Checking'', ma_display_name = Some ''Main''\<rparr>]),
         plaid_accounts_response = Data None,
         arrival = (\<lambda>r. 0), requests = []\<rparr>
        ManualAccounts
        (Some \<lparr>categories = Map.empty, tags = Map.empty,
               manualAccounts =
                 [3 \<mapsto> \<lparr>ma_id = 3, ma_name = ''Checking'', ma_display_name = None\<rparr>],
               plaidAccounts = Map.empty\<rparr>))))
     (Some 3) None = Inr ''Main''"
proof -
  let ?c = "\<lparr>categories = Map.empty, tags = Map.empty,
            manualAccounts =
              [3 \<mapsto> \<lparr>ma_id = 3, ma_name = ''Checking'', ma_display_name = None\<rparr>],
            plaidAccounts = Map.empty\<rparr>"
  let ?c' = "\<lparr>categories = Map.empty, tags = Map.empty,
            manualAccounts =
              [3 \<mapsto> \<lparr>ma_id = 3, ma_name = ''Checking'', ma_display_name = Some ''Main''\<rparr>],
            plaidAccounts = Map.empty\<rparr>"
  let ?a = "\<lparr>categories_response = Data None, tags_response = Data None,
         manual_accounts_response =
           Data (Some [\<lparr>ma_id = 3, ma_name = ''Checking'', ma_display_name = Some ''Main''\<rparr>]),
         plaid_accounts_response = Data None,
         arrival = (\<lambda>r. 0), requests = []\<rparr>"
  let ?v = "[3 \<mapsto> \<lparr>ma_id = 3, ma_name = ''Checking'', ma_display_name = Some ''Main''\<rparr>]"
  have old: "manualAccounts ?c 3
      = Some \<lparr>ma_id = 3, ma_name = ''Checking'', ma_display_name = None\<rparr>"
    by simp
  have renamed: "manualAccounts ?c' 3
      = Some \<lparr>ma_id = 3, ma_name = ''Checking'', ma_display_name = Some ''Main''\<rparr>"
    by simp
  have fetched: "fst (fetchManualAccounts ?a) = Inr ?v"
    by (simp add: snapshot_def collect_def)
  have new: "?v 3 = Some \<lparr>ma_id = 3, ma_name = ''Checking'', ma_display_name = Some ''Main''\<rparr>"
    by simp
  show ?thesis
    using accountName_manual_display
      [of ?c 3 "\<lparr>ma_id = 3, ma_name = ''Checking'', ma_display_name = None\<rparr>" "''Main''"
          ?a ?v "\<lparr>ma_id = 3, ma_name = ''Checking'', ma_display_name = Some ''Main''\<rparr>"]
      accountName_manual_display
      [of ?c' 3 "\<lparr>ma_id = 3, ma_name = ''Checking'', ma_display_name = Some ''Main''\<rparr>"
          "''Main''" ?a ?v
          "\<lparr>ma_id = 3, ma_name = ''Checking'', ma_display_name = Some ''Main''\<rparr>"]
      old renamed fetched new
    by simp
qed

section \<open>A failed refresh\<close>

text \<open>
  Claim C7. The claim requires that a failed fetch inside \<^verbatim>\<open>refreshCache\<close> reaches the
  caller as an error and leaves the table as it was. The code does not do this when the
  failed request is answered with an empty body. Here the tags request is answered with
  status 503 and no body: the error value is the empty string, \<^verbatim>\<open>if (error)\<close> in
  \<^verbatim>\<open>fetchTags\<close> is not taken, \<^verbatim>\<open>fetchTags\<close> returns an empty map, and \<^verbatim>\<open>refreshCache\<close>
  succeeds and replaces the tags table by the empty one. Tag 10 resolved to "work" before
  the call and resolves to the placeholder after it.
\<close>

theorem refreshCache_empty_error_body:
  "refreshCache
     \<lparr>categories_response = Data None,
      tags_response = ErrorResponse 503 (JString ''''),
      manual_accounts_response = Data None,
      plaid_accounts_response = Data None,
      arrival = (\<lambda>r. 0), requests = []\<rparr>
     Tags
     (Some \<lparr>categories = Map.empty,
            tags = [10 \<mapsto> \<lparr>tag_id = 10, tag_name = ''work''\<rparr>],
            manualAccounts = Map.empty, plaidAccounts = Map.empty\<rparr>)
   = (Inr (),
      Some \<lparr>categories = Map.empty, tags = Map.empty,
            manualAccounts = Map.empty, plaidAccounts = Map.empty\<rparr>,
      \<lparr>categories_response = Data None,
       tags_response = ErrorResponse 503 (JString ''''),
       manual_accounts_response = Data None,
       plaid_accounts_response = Data None,
       arrival = (\<lambda>r. 0), requests = [''/tags'']\<rparr>)
   \<and> tagNames
       (Some \<lparr>categories = Map.empty,
              tags = [10 \<mapsto> \<lparr>tag_id = 10, tag_name = ''work''\<rparr>],
              manualAccounts = Map.empty, plaidAccounts = Map.empty\<rparr>)
       [10] = Inr [''work'']
   \<and> tagNames
       (Some \<lparr>categories = Map.empty, tags = Map.empty,
              manualAccounts = Map.empty, plaidAccounts = Map.empty\<rparr>)
       [10] = Inr [''Tag #10'']"
proof -
  have ten: "number_to_string 10 = ''10''"
    by (simp add: number_to_string_def string_of_nat.simps digit_def)
  then show ?thesis
    by (simp add: refreshCache_unfold snapshot_def collect_def GET_def tagNames_def)
qed

text \<open>
  The same answer with a JSON object as its body is thrown by \<^verbatim>\<open>handleError\<close>, and then
  the refresh behaves as the claim says: the error reaches the caller, the cache is what
  it was, and one request was issued.
\<close>

lemma refreshCache_json_error_body:
  "fst (fetchTags
     \<lparr>categories_response = Data None,
      tags_response = ErrorResponse 503 (JObject \<lparr>message = Some ''down'', errors = None\<rparr>),
      manual_accounts_response = Data None,
      plaid_accounts_response = Data None,
      arrival = (\<lambda>r. 0), requests = [''/tags'']\<rparr>)
     = Inl (ApiError 503 ''Lunch Money API error. Try again later.'')
   \<and> refreshCache
     \<lparr>categories_response = Data None,
      tags_response = ErrorResponse 503 (JObject \<lparr>message = Some ''down'', errors = None\<rparr>),
      manual_accounts_response = Data None,
      plaid_accounts_response = Data None,
      arrival = (\<lambda>r. 0), requests = [''/tags'']\<rparr>
     Tags
     (Some \<lparr>categories = Map.empty,
            tags = [10 \<mapsto> \<lparr>tag_id = 10, tag_name = ''work''\<rparr>],
            manualAccounts = Map.empty, plaidAccounts = Map.empty\<rparr>)
   = (Inl (ApiError 503 ''Lunch Money API error. Try again later.''),
      Some \<lparr>categories = Map.empty,
            tags = [10 \<mapsto> \<lparr>tag_id = 10, tag_name = ''work''\<rparr>],
            manualAccounts = Map.empty, plaidAccounts = Map.empty\<rparr>,
      \<lparr>categories_response = Data None,
       tags_response = ErrorResponse 503 (JObject \<lparr>message = Some ''down'', errors = None\<rparr>),
       manual_accounts_response = Data None,
       plaid_accounts_response = Data None,
       arrival = (\<lambda>r. 0), requests = [''/tags'', ''/tags'']\<rparr>)"
proof -
  let ?a = "\<lparr>categories_response = Data None,
      tags_response = ErrorResponse 503 (JObject \<lparr>message = Some ''down'', errors = None\<rparr>),
      manual_accounts_response = Data None,
      plaid_accounts_response = Data None,
      arrival = (\<lambda>r. 0), requests = [''/tags'']\<rparr>"
  let ?c = "\<lparr>categories = Map.empty,
            tags = [10 \<mapsto> \<lparr>tag_id = 10, tag_name = ''work''\<rparr>],
            manualAccounts = Map.empty, plaidAccounts = Map.empty\<rparr>"
  have run: "refreshCache ?a Tags (Some ?c) =
      (fst (refreshCache ?a Tags (Some ?c)), fst (snd (refreshCache ?a Tags (Some ?c))),
       snd (snd (refreshCache ?a Tags (Some ?c))))"
    by simp
  have fails: "fst (fetchTags ?a) = Inl (ApiError 503 ''Lunch Money API error. Try again later.'')"
    by (simp add: snapshot_def handleError_def)
  then have hyp: "(case Tags of
      Categories \<Rightarrow> fst (fetchCategories ?a)
                     = Inl (ApiError 503 ''Lunch Money API error. Try again later.'')
    | Tags \<Rightarrow> fst (fetchTags ?a)
                     = Inl (ApiError 503 ''Lunch Money API error. Try again later.'')
    | ManualAccounts \<Rightarrow> fst (fetchManualAccounts ?a)
                     = Inl (ApiError 503 ''Lunch Money API error. Try again later.'')
    | PlaidAccounts \<Rightarrow> fst (fetchPlaidAccounts ?a)
                     = Inl (ApiError 503 ''Lunch Money API error. Try again later.''))"
    by simp
  have log: "snd (snd (refreshCache ?a Tags (Some ?c))) = ?a\<lparr>requests := requests ?a @ [''/tags'']\<rparr>"
    by (simp add: refreshCache_unfold snapshot_def GET_def split: sum.splits)
  from refreshCache_fetch_throws [OF run hyp] fails log show ?thesis
    by (simp add: prod_eq_iff)
qed

section \<open>The category field of a transaction\<close>

text \<open>
  Claim C8. On an initialized cache, \<^verbatim>\<open>formatTransaction\<close> returns a text for every
  transaction: after the first line comes the line that starts with "  Category: ", then
  the string \<^verbatim>\<open>categoryName\<close> returned, unchanged, then " | Account: " and the account
  name. For a category id 42 that is not in the table the field reads "Category #42".
\<close>

theorem formatTransaction_category:
  "(\<exists>cat acct rest.
       categoryName (Some c) (category_id t) = Inr cat
     \<and> accountName (Some c) (manual_account_id t) (plaid_account_id t) = Inr acct
     \<and> formatTransaction formatAmount (Some c) t =
         Inr (date t @ ''  '' @ formatAmount (amount t) (currency t) @ ''  '' @ payee t
              @ ''\<newline>  Category: '' @ cat @ '' | Account: '' @ acct @ rest))
   \<and> (category_id t = Some 42 \<and> categories c 42 = None \<longrightarrow>
        (\<exists>pre rest. formatTransaction formatAmount (Some c) t =
           Inr (pre @ ''\<newline>  Category: Category #42 | Account: '' @ rest)))"
proof -
  obtain cat where cat: "categoryName (Some c) (category_id t) = Inr cat"
    by (cases "category_id t") (simp_all add: categoryName_def)
  obtain acct where acct:
    "accountName (Some c) (manual_account_id t) (plaid_account_id t) = Inr acct"
    by (cases "manual_account_id t"; cases "plaid_account_id t")
       (simp_all add: accountName_def)
  obtain tgs where tgs:
    "(if length (tag_ids t) > 0
      then (case tagNames (Some c) (tag_ids t) of
              Inl e \<Rightarrow> Inl e
            | Inr ns \<Rightarrow> Inr ('' ['' @ join '', '' ns @ '']''))
      else Inr '''') = (Inr tgs :: error + string)"
    by (cases "length (tag_ids t) > 0") (simp_all add: tagNames_def)
  have out: "\<exists>rest. formatTransaction formatAmount (Some c) t =
         Inr (date t @ ''  '' @ formatAmount (amount t) (currency t) @ ''  '' @ payee t
              @ ''\<newline>  Category: '' @ cat @ '' | Account: '' @ acct @ rest)"
    unfolding formatTransaction_def tgs acct cat
    by (cases "tx_notes t") (simp_all add: Let_def)
  have unknown: "category_id t = Some 42 \<and> categories c 42 = None \<longrightarrow>
        (\<exists>pre rest. formatTransaction formatAmount (Some c) t =
           Inr (pre @ ''\<newline>  Category: Category #42 | Account: '' @ rest))"
  proof
    assume h: "category_id t = Some 42 \<and> categories c 42 = None"
    then have "cat = ''Category #42''"
      using cat by (simp add: categoryName_def number_to_string_42)
    with out obtain rest where
      "formatTransaction formatAmount (Some c) t =
         Inr ((date t @ ''  '' @ formatAmount (amount t) (currency t) @ ''  '' @ payee t)
              @ ''\<newline>  Category: Category #42 | Account: '' @ (acct @ rest))"
      by auto
    then show "\<exists>pre rest. formatTransaction formatAmount (Some c) t =
           Inr (pre @ ''\<newline>  Category: Category #42 | Account: '' @ rest)"
      by blast
  qed
  from cat acct out unknown show ?thesis by blast
qed

text \<open>A cash transaction whose category 42 is unknown to the cache, rendered in full.\<close>

theorem formatTransaction_category_witness:
  "category_id
     \<lparr>tx_id = 7, date = ''2024-01-05'', amount = ''12.50'', currency = ''usd'',
      payee = ''Cafe'', category_id = Some 42, manual_account_id = None,
      plaid_account_id = None, tag_ids = [], tx_notes = None, status = ''reviewed''\<rparr>
     = Some 42
   \<and> categories
     \<lparr>categories = [1 \<mapsto> \<lparr>cat_id = 1, cat_name = ''Food''\<rparr>], tags = Map.empty,
      manualAccounts = Map.empty, plaidAccounts = Map.empty\<rparr> 42 = None
   \<and> (\<exists>pre rest.
        formatTransaction (\<lambda>amt cur. ''$'' @ amt)
          (Some \<lparr>categories = [1 \<mapsto> \<lparr>cat_id = 1, cat_name = ''Food''\<rparr>], tags = Map.empty,
                 manualAccounts = Map.empty, plaidAccounts = Map.empty\<rparr>)
          \<lparr>tx_id = 7, date = ''2024-01-05'', amount = ''12.50'', currency = ''usd'',
           payee = ''Cafe'', category_id = Some 42, manual_account_id = None,
           plaid_account_id = None, tag_ids = [], tx_notes = None, status = ''reviewed''\<rparr>
        = Inr (pre @ ''\<newline>  Category: Category #42 | Account: '' @ rest))
   \<and> formatTransaction (\<lambda>amt cur. ''$'' @ amt)
        (Some \<lparr>categories = [1 \<mapsto> \<lparr>cat_id = 1, cat_name = ''Food''\<rparr>], tags = Map.empty,
               manualAccounts = Map.empty, plaidAccounts = Map.empty\<rparr>)
        \<lparr>tx_id = 7, date = ''2024-01-05'', amount = ''12.50'', currency = ''usd'',
         payee = ''Cafe'', category_id = Some 42, manual_account_id = None,
         plaid_account_id = None, tag_ids = [], tx_notes = None, status = ''reviewed''\<rparr>
      = Inr ''2024-01-05  $12.50  Cafe\<newline>  Category: Category #42 | Account: Cash\<newline>  ID: 7''"
proof -
  let ?c = "\<lparr>categories = [1 \<mapsto> \<lparr>cat_id = 1, cat_name = ''Food''\<rparr>], tags = Map.empty,
      manualAccounts = Map.empty, plaidAccounts = Map.empty\<rparr>"
  let ?t = "\<lparr>tx_id = 7, date = ''2024-01-05'', amount = ''12.50'', currency = ''usd'',
      payee = ''Cafe'', category_id = Some 42, manual_account_id = None,
      plaid_account_id = None, tag_ids = [], tx_notes = None, status = ''reviewed''\<rparr>"
  have hyp: "category_id ?t = Some 42 \<and> categories ?c 42 = None" by simp
  have seven: "number_to_string 7 = ''7''"
    by (simp add: number_to_string_def string_of_nat.simps digit_def)
  have full: "formatTransaction (\<lambda>amt cur. ''$'' @ amt) (Some ?c) ?t
      = Inr ''2024-01-05  $12.50  Cafe\<newline>  Category: Category #42 | Account: Cash\<newline>  ID: 7''"
    by (simp add: formatTransaction_def categoryName_def accountName_def
          number_to_string_42 seven)
  from formatTransaction_category [of ?c ?t "\<lambda>amt cur. ''$'' @ amt"] hyp
  have "\<exists>pre rest. formatTransaction (\<lambda>amt cur. ''$'' @ amt) (Some ?c) ?t
        = Inr (pre @ ''\<newline>  Category: Category #42 | Account: '' @ rest)"
    by blast
  with hyp full show ?thesis by blast
qed

section \<open>Queries on the uninitialized cache\<close>

text \<open>
  Claim C9. \<^verbatim>\<open>categoryName(null)\<close> returns "Uncategorized" in every cache state, the
  uninitialized one included: the cache is not read. Every other query throws
  "Cache not initialized" on the uninitialized cache: \<^verbatim>\<open>categoryName\<close> of any id,
  \<^verbatim>\<open>tagNames\<close> of any list (the empty one too) and \<^verbatim>\<open>accountName\<close> of any two arguments
  (both null too).
\<close>

theorem uninitialized_queries:
  "categoryName ch None = Inr ''Uncategorized''
   \<and> categoryName None None = Inr ''Uncategorized''
   \<and> categoryName None (Some i)
       = Inl (Error ''Cache not initialized. Call initCache() first.'')
   \<and> tagNames None ids = Inl (Error ''Cache not initialized. Call initCache() first.'')
   \<and> tagNames None [] = Inl (Error ''Cache not initialized. Call initCache() first.'')
   \<and> accountName None manualId plaidId
       = Inl (Error ''Cache not initialized. Call initCache() first.'')
   \<and> accountName None None None
       = Inl (Error ''Cache not initialized. Call initCache() first.'')"
  by (simp add: categoryName_def tagNames_def accountName_def)

section \<open>Manual accounts take precedence\<close>

text \<open>
  Claim C10. On an initialized cache, the result of \<^verbatim>\<open>accountName\<close> with a non-null
  manual id depends neither on the plaid table nor on the plaid id. When the manual id is
  not in the manual-accounts table the result is "Manual #" followed by that id, also
  when the plaid id is present in the plaid table.
\<close>

theorem accountName_manual_precedence:
  "accountName (Some (c\<lparr>plaidAccounts := pt\<rparr>)) (Some m) plaidId'
     = accountName (Some c) (Some m) plaidId
   \<and> (manualAccounts c m = None \<longrightarrow>
        accountName (Some c) (Some m) plaidId = Inr (''Manual #'' @ number_to_string m))
   \<and> (manualAccounts c m = None \<and> plaidAccounts c q = Some pacct \<longrightarrow>
        accountName (Some c) (Some m) (Some q) = Inr (''Manual #'' @ number_to_string m))"
  by (simp add: accountName_def)

text \<open>An unknown manual id 4 next to a known plaid id 9.\<close>

theorem accountName_manual_precedence_witness:
  "manualAccounts
     \<lparr>categories = Map.empty, tags = Map.empty, manualAccounts = Map.empty,
      plaidAccounts = [9 \<mapsto> \<lparr>pa_id = 9, pa_name = ''Visa'', pa_display_name = None\<rparr>]\<rparr> 4
     = None
   \<and> plaidAccounts
     \<lparr>categories = Map.empty, tags = Map.empty, manualAccounts = Map.empty,
      plaidAccounts = [9 \<mapsto> \<lparr>pa_id = 9, pa_name = ''Visa'', pa_display_name = None\<rparr>]\<rparr> 9
     = Some \<lparr>pa_id = 9, pa_name = ''Visa'', pa_display_name = None\<rparr>
   \<and> accountName
     (Some \<lparr>categories = Map.empty, tags = Map.empty, manualAccounts = Map.empty,
            plaidAccounts =
              [9 \<mapsto> \<lparr>pa_id = 9, pa_name = ''Visa'', pa_display_name = None\<rparr>]\<rparr>)
     (Some 4) (Some 9) = Inr ''Manual #4''
   \<and> accountName
     (Some \<lparr>categories = Map.empty, tags = Map.empty, manualAccounts = Map.empty,
            plaidAccounts =
              [9 \<mapsto> \<lparr>pa_id = 9, pa_name = ''Visa'', pa_display_name = None\<rparr>]\<rparr>)
     None (Some 9) = Inr ''Visa''"
proof -
  let ?c = "\<lparr>categories = Map.empty, tags = Map.empty, manualAccounts = Map.empty,
      plaidAccounts = [9 \<mapsto> \<lparr>pa_id = 9, pa_name = ''Visa'', pa_display_name = None\<rparr>]\<rparr>"
  have absent: "manualAccounts ?c 4 = None" by simp
  have present: "plaidAccounts ?c 9 = Some \<lparr>pa_id = 9, pa_name = ''Visa'', pa_display_name = None\<rparr>"
    by simp
  have four: "number_to_string 4 = ''4''"
    by (simp add: number_to_string_def string_of_nat.simps digit_def)
  have plaid: "accountName (Some ?c) None (Some 9) = Inr ''Visa''"
    by (simp add: accountName_def)
  show ?thesis
    using accountName_manual_precedence
      [where c = ?c and pt = Map.empty and m = 4 and plaidId = "Some 9"
         and plaidId' = None and q = 9
         and pacct = "\<lparr>pa_id = 9, pa_name = ''Visa'', pa_display_name = None\<rparr>"]
      absent present four plaid
    by simp
qed

end
